theory Spec2Isabelle
  imports Main
begin

section \<open>Bytes, errors and the byte sink\<close>

text \<open>
  Go strings and byte slices are sequences of bytes; both are modelled as
  \<^typ>\<open>string\<close> (a list of 8-bit characters). A rune is a signed 32-bit integer;
  none of the code below can overflow it, so runes are \<^typ>\<open>int\<close>.
\<close>

datatype error = errors_New string

definition ErrNilNode :: error where
  "ErrNilNode = errors_New ''nil node''"

definition ErrInvalidOperation :: error where
  "ErrInvalidOperation = errors_New ''operation cannot be performed''"

definition ErrDuplicateAttribute :: error where
  "ErrDuplicateAttribute = errors_New ''duplicate attribute''"

text \<open>
  What a call does: it panics, it does not come back within the given number of
  steps (only the tree walks of the serializer take a step count), or it returns.
\<close>

datatype 'a outcome = Panic string | OutOfFuel | Done 'a

text \<open>
  \<open>io.Writer\<close> is an interface of Go's standard library. The sink is an in-memory
  buffer: unbounded when \<open>room\<close> is \<open>None\<close> (a \<open>bytes.Buffer\<close>), or with room for a
  number of further bytes, in which case a write that does not fit stores what fits
  and reports \<open>io.ErrShortWrite\<close>.
\<close>

record writer =
  written :: string
  room :: "nat option"

definition ErrShortWrite :: error where
  "ErrShortWrite = errors_New ''short write''"

definition Write :: "writer \<Rightarrow> string \<Rightarrow> error option \<times> writer" where
  "Write w p =
     (case room w of
        None \<Rightarrow> (None, w\<lparr>written := written w @ p\<rparr>)
      | Some k \<Rightarrow>
          if length p \<le> k
          then (None, w\<lparr>written := written w @ p, room := Some (k - length p)\<rparr>)
          else (Some ErrShortWrite, w\<lparr>written := written w @ take k p, room := Some 0\<rparr>))"

text \<open>\<open>io.WriteString(out, s)\<close> where the caller drops both results.\<close>

definition io_WriteString :: "writer \<Rightarrow> string \<Rightarrow> writer" where
  "io_WriteString w s = snd (Write w s)"

definition Buffer :: writer where
  "Buffer = \<lparr>written = [], room = None\<rparr>"

section \<open>UTF-8 decoding (Go's \<open>unicode/utf8\<close>)\<close>

definition RuneError :: int where
  "RuneError = 0xFFFD"

text \<open>
  \<open>utf8.DecodeRune\<close>: the first rune of \<open>p\<close> and its width in bytes; \<open>(RuneError, 0)\<close>
  on empty input and \<open>(RuneError, 1)\<close> on an invalid, truncated, overlong, surrogate
  or out-of-range encoding. The library's table lookups are written as the byte
  ranges they stand for, its masks and shifts as \<open>mod\<close> and multiplication.
\<close>

definition DecodeRune :: "string \<Rightarrow> int \<times> nat" where
  "DecodeRune p =
     (if length p < 1 then (RuneError, 0)
      else
        let p0 = (of_char (p ! 0) :: int) in
        if p0 < 0x80 then (p0, 1)
        else if p0 < 0xC2 \<or> 0xF4 < p0 then (RuneError, 1)
        else
          let sz = (if p0 < 0xE0 then 2 else if p0 < 0xF0 then 3 else (4::nat));
              lo = (if p0 = 0xE0 then 0xA0 else if p0 = 0xF0 then 0x90 else (0x80::int));
              hi = (if p0 = 0xED then 0x9F else if p0 = 0xF4 then 0x8F else (0xBF::int))
          in
          if length p < sz then (RuneError, 1)
          else
            let b1 = (of_char (p ! 1) :: int) in
            if b1 < lo \<or> hi < b1 then (RuneError, 1)
            else if sz \<le> 2 then ((p0 mod 32) * 64 + b1 mod 64, 2)
            else
              let b2 = (of_char (p ! 2) :: int) in
              if b2 < 0x80 \<or> 0xBF < b2 then (RuneError, 1)
              else if sz \<le> 3
              then ((p0 mod 16) * 4096 + (b1 mod 64) * 64 + b2 mod 64, 3)
              else
                let b3 = (of_char (p ! 3) :: int) in
                if b3 < 0x80 \<or> 0xBF < b3 then (RuneError, 1)
                else ((p0 mod 8) * 262144 + (b1 mod 64) * 4096
                        + (b2 mod 64) * 64 + b3 mod 64, 4))"

text \<open>\<open>fmt.Sprintf("%X", r)\<close>: upper-case hexadecimal, no padding, a sign if negative.\<close>

definition hexdigit :: "nat \<Rightarrow> char" where
  "hexdigit d = ''0123456789ABCDEF'' ! d"

fun hex :: "nat \<Rightarrow> string" where
  "hex n = (if n < 16 then [hexdigit n] else hex (n div 16) @ [hexdigit (n mod 16)])"

declare hex.simps [simp del]

definition Sprintf_X :: "int \<Rightarrow> string" where
  "Sprintf_X r = (if r < 0 then CHR ''-'' # hex (nat (- r)) else hex (nat r))"

section \<open>Escaping (dump.go)\<close>

definition esc_quot :: string where "esc_quot = ''&#34;''"
definition esc_apos :: string where "esc_apos = ''&#39;''"
definition esc_amp :: string where "esc_amp = ''&amp;''"
definition esc_lt :: string where "esc_lt = ''&lt;''"
definition esc_gt :: string where "esc_gt = ''&gt;''"
definition esc_tab :: string where "esc_tab = ''&#9;''"
definition esc_nl :: string where "esc_nl = ''&#10;''"
definition esc_cr :: string where "esc_cr = ''&#13;''"

text \<open>The UTF-8 encoding of U+FFFD.\<close>

definition esc_fffd :: string where
  "esc_fffd = [CHR 0xEF, CHR 0xBF, CHR 0xBD]"

definition isInCharacterRange :: "int \<Rightarrow> bool" where
  "isInCharacterRange r \<longleftrightarrow>
     r = 0x09 \<or> r = 0x0A \<or> r = 0x0D \<or>
     r \<ge> 0x20 \<and> r \<le> 0xDF77 \<or>
     r \<ge> 0xE000 \<and> r \<le> 0xFFFD \<or>
     r \<ge> 0x10000 \<and> r \<le> 0x10FFFF"

text \<open>
  The \<open>switch r\<close> of \<open>escapeAttrValue\<close>: the replacement chosen for a rune of the
  given width, \<open>None\<close> where the loop body ends in \<open>continue\<close>.
\<close>

definition escapeAttrValue_switch :: "int \<Rightarrow> nat \<Rightarrow> string option" where
  "escapeAttrValue_switch r width =
     (if r = 0x22 then Some esc_quot
      else if r = 0x27 then Some esc_apos
      else if r = 0x26 then Some esc_amp
      else if r = 0x3C then Some esc_lt
      else if r = 0x3E then Some esc_gt
      else if r = 0x0A then Some esc_nl
      else if r = 0x0D then Some esc_cr
      else if r = 0x09 then Some esc_tab
      else if \<not> (0x20 \<le> r \<and> r < 0x80) \<and> r < 0xE0
        then Some (''&#x'' @ Sprintf_X r @ '';'')
      else if \<not> isInCharacterRange r \<or> (r = 0xFFFD \<and> width = 1)
        then Some esc_fffd
      else None)"

text \<open>The \<open>switch r\<close> of \<open>escapeText\<close>.\<close>

definition escapeText_switch :: "bool \<Rightarrow> int \<Rightarrow> nat \<Rightarrow> string option" where
  "escapeText_switch escapeNewline r width =
     (if r = 0x22 then Some esc_quot
      else if r = 0x27 then Some esc_apos
      else if r = 0x26 then Some esc_amp
      else if r = 0x3C then Some esc_lt
      else if r = 0x3E then Some esc_gt
      else if r = 0x0A then (if \<not> escapeNewline then None else Some esc_nl)
      else if r = 0x0D then Some esc_cr
      else if \<not> (r = 0x09 \<or> (0x20 \<le> r \<and> r < 0x80)) \<and> r < 0xE0
        then Some (''&#x'' @ Sprintf_X r @ '';'')
      else if \<not> isInCharacterRange r \<or> (r = 0xFFFD \<and> width = 1)
        then Some esc_fffd
      else None)"

text \<open>
  The loop shared in shape by both functions: \<open>i\<close> is the index before the rune is
  decoded, so the source's \<open>s[last : i-width]\<close> after \<open>i += width\<close> is the slice from
  \<open>last'\<close> to \<open>i\<close>. The first failing write ends the call with its error.
\<close>

function escape_loop :: "(int \<Rightarrow> nat \<Rightarrow> string option) \<Rightarrow> writer \<Rightarrow> string \<Rightarrow> nat \<Rightarrow> nat
    \<Rightarrow> error option \<times> writer" where
  "escape_loop sw w s last' i =
     (if i < length s then
        (case DecodeRune (drop i s) of
           (r, width) \<Rightarrow>
             (case sw r width of
                None \<Rightarrow> escape_loop sw w s last' (i + width)
              | Some esc \<Rightarrow>
                  (case Write w (take (i - last') (drop last' s)) of
                     (Some err, w1) \<Rightarrow> (Some err, w1)
                   | (None, w1) \<Rightarrow>
                       (case Write w1 esc of
                          (Some err, w2) \<Rightarrow> (Some err, w2)
                        | (None, w2) \<Rightarrow> escape_loop sw w2 s (i + width) (i + width)))))
      else Write w (drop last' s))"
  by pat_completeness auto
termination
proof (relation "measure (\<lambda>(sw, w, s, last', i). length s - i)")
  have pos: "0 < width" if "i < length s" and "(r, width) = DecodeRune (drop i s)"
    for s :: string and i width :: nat and r :: int
  proof -
    from that(1) have "drop i s \<noteq> []" by simp
    then have "0 < snd (DecodeRune (drop i s))"
      by (cases "drop i s") (simp_all add: DecodeRune_def Let_def)
    with that(2) show ?thesis by (metis snd_conv)
  qed
  show "wf (measure (\<lambda>(sw, w, s, last', i). length s - i))" by simp
  show "((sw, w, s, last', i + width), (sw, w, s, last', i))
          \<in> measure (\<lambda>(sw, w, s, last', i). length s - i)"
    if "i < length s" and "(r, width) = DecodeRune (drop i s)"
    for sw :: "int \<Rightarrow> nat \<Rightarrow> string option" and w :: writer and s :: string
      and last' i width :: nat and r :: int
    using pos [OF that] that(1) by simp
  show "((sw, w2, s, i + width, i + width), (sw, w, s, last', i))
          \<in> measure (\<lambda>(sw, w, s, last', i). length s - i)"
    if "i < length s" and "(r, width) = DecodeRune (drop i s)"
    for sw :: "int \<Rightarrow> nat \<Rightarrow> string option" and w w2 :: writer and s :: string
      and last' i width :: nat and r :: int
    using pos [OF that] that(1) by simp
qed

declare escape_loop.simps [simp del]

definition escapeAttrValue :: "writer \<Rightarrow> string \<Rightarrow> error option \<times> writer" where
  "escapeAttrValue w s = escape_loop escapeAttrValue_switch w s 0 0"

definition escapeText :: "writer \<Rightarrow> string \<Rightarrow> bool \<Rightarrow> error option \<times> writer" where
  "escapeText w s escapeNewline = escape_loop (escapeText_switch escapeNewline) w s 0 0"

section \<open>The document tree (node types and their linkage)\<close>

datatype ElementType =
    ElementNode
  | AttributeNode
  | TextNode
  | CDATASectionNode
  | EntityRefNode
  | EntityNode
  | ProcessingInstructionNode
  | CommentNode
  | DocumentNode
  | DocumentTypeNode
  | DocumentFragNode
  | NotationNode
  | HTMLDocumentNode
  | DTDNode
  | ElementDeclNode
  | AttributeDeclNode
  | EntityDeclNode
  | NamespaceDeclNode
  | XIncludeStartNode
  | XIncludeEndNode
  | NamespaceNode

datatype AttributeType =
    AttrInvalid
  | AttrCDATA
  | AttrID
  | AttrIDRef
  | AttrIDRefs
  | AttrEntity
  | AttrEntities
  | AttrNmtoken
  | AttrNmtokens
  | AttrEnumeration
  | AttrNotation

datatype EntityType =
    InternalGeneralEntity
  | ExternalGeneralParsedEntity
  | ExternalGeneralUnparsedEntity
  | InternalParameterEntity
  | ExternalParameterEntity
  | InternalPredefinedEntity

definition XMLTextNoEnc :: string where
  "XMLTextNoEnc = ''textnoenc''"

definition StandaloneInvalidValue :: int where "StandaloneInvalidValue = - 99"
definition StandaloneExplicitYes :: int where "StandaloneExplicitYes = 1"
definition StandaloneExplicitNo :: int where "StandaloneExplicitNo = 0"
definition StandaloneNoXMLDecl :: int where "StandaloneNoXMLDecl = - 1"
definition StandaloneImplicitNo :: int where "StandaloneImplicitNo = - 2"

text \<open>
  Nodes live in a store and refer to each other by address; \<open>None\<close> is Go's \<open>nil\<close>.
  The structs keep their fields and their embedding: \<open>node\<close>, \<open>Document\<close>,
  \<open>Attribute\<close> and \<open>DTD\<close> extend \<open>docnode\<close>, and \<open>Entity\<close> extends \<open>node\<close> (its own
  \<open>content\<close> shadows the embedded one, as in the source). The untyped \<open>private\<close>
  field of \<open>node\<close> and the declaration tables of \<open>DTD\<close>, which nothing here reads,
  are left out. A \<open>*Namespace\<close> and a \<open>*Entity\<close> never change after creation and are
  held by value.
\<close>

type_synonym addr = nat

record Namespace =
  etype :: ElementType
  href :: string
  prefix :: string
  "context" :: "addr option"

record docnode =
  name :: string
  etype :: ElementType
  firstChild :: "addr option"
  lastChild :: "addr option"
  parent :: "addr option"
  "next" :: "addr option"
  prev :: "addr option"
  doc :: "addr option"

record node = docnode +
  content :: string
  properties :: "addr option"
  ns :: "Namespace option"
  nsDefs :: "Namespace list"

record Document = docnode +
  version :: string
  encoding :: string
  standalone :: int
  intSubset :: "addr option"
  extSubset :: "addr option"

record Attribute = docnode +
  atype :: AttributeType
  defaultAttr :: bool
  ns :: "Namespace option"

record Entity = node +
  orig :: string
  content :: string
  entityType :: EntityType
  externalID :: string
  systemID :: string
  uri :: string
  owner :: bool
  checked :: int

record DTD = docnode +
  entities :: "string \<rightharpoonup> Entity"
  pentities :: "string \<rightharpoonup> Entity"
  externalID :: string
  systemID :: string

text \<open>
  A stored object carries its Go type: the four wrappers around \<open>node\<close> are told
  apart by it, as by a type assertion.
\<close>

datatype obj =
    ODocument Document
  | OElement node
  | OText node
  | OComment node
  | OEntityRef node
  | OAttribute Attribute
  | ODTD DTD

type_synonym heap = "obj list"

definition deref :: "heap \<Rightarrow> addr \<Rightarrow> obj option" where
  "deref h a = (if a < length h then Some (h ! a) else None)"

definition alloc :: "heap \<Rightarrow> obj \<Rightarrow> addr \<times> heap" where
  "alloc h ob = (length h, h @ [ob])"

definition nil_dereference :: string where
  "nil_dereference = ''invalid memory address or nil pointer dereference''"

definition interface_conversion :: string where
  "interface_conversion = ''interface conversion''"

subsection \<open>The methods of the \<open>Node\<close> interface\<close>

text \<open>
  Modelled from the spec: the accessor and setter methods of \<open>Node\<close> are declared in
  the interface but their bodies are not among the sources. They read and write the
  linkage fields of the embedded \<open>docnode\<close> (section 3: every variant shares the
  tree-linkage fields); \<open>Content\<close> is the raw content of a text-bearing node.
\<close>

definition the_docnode :: "obj \<Rightarrow> docnode" where
  "the_docnode ob =
     (case ob of
        ODocument d \<Rightarrow> docnode.truncate d
      | OElement n \<Rightarrow> docnode.truncate n
      | OText n \<Rightarrow> docnode.truncate n
      | OComment n \<Rightarrow> docnode.truncate n
      | OEntityRef n \<Rightarrow> docnode.truncate n
      | OAttribute a \<Rightarrow> docnode.truncate a
      | ODTD t \<Rightarrow> docnode.truncate t)"

definition Type :: "obj \<Rightarrow> ElementType" where
  "Type ob = docnode.etype (the_docnode ob)"

definition Name :: "obj \<Rightarrow> string" where
  "Name ob = name (the_docnode ob)"

definition FirstChild :: "obj \<Rightarrow> addr option" where
  "FirstChild ob = firstChild (the_docnode ob)"

definition LastChild :: "obj \<Rightarrow> addr option" where
  "LastChild ob = lastChild (the_docnode ob)"

definition NextSibling :: "obj \<Rightarrow> addr option" where
  "NextSibling ob = next (the_docnode ob)"

definition Parent :: "obj \<Rightarrow> addr option" where
  "Parent ob = parent (the_docnode ob)"

definition Content :: "obj \<Rightarrow> string" where
  "Content ob =
     (case ob of
        OElement n \<Rightarrow> node.content n
      | OText n \<Rightarrow> node.content n
      | OComment n \<Rightarrow> node.content n
      | OEntityRef n \<Rightarrow> node.content n
      | _ \<Rightarrow> [])"

definition setFirstChild :: "addr option \<Rightarrow> obj \<Rightarrow> obj" where
  "setFirstChild c ob =
     (case ob of
        ODocument d \<Rightarrow> ODocument (d\<lparr>firstChild := c\<rparr>)
      | OElement n \<Rightarrow> OElement (n\<lparr>firstChild := c\<rparr>)
      | OText n \<Rightarrow> OText (n\<lparr>firstChild := c\<rparr>)
      | OComment n \<Rightarrow> OComment (n\<lparr>firstChild := c\<rparr>)
      | OEntityRef n \<Rightarrow> OEntityRef (n\<lparr>firstChild := c\<rparr>)
      | OAttribute a \<Rightarrow> OAttribute (a\<lparr>firstChild := c\<rparr>)
      | ODTD t \<Rightarrow> ODTD (t\<lparr>firstChild := c\<rparr>))"

definition setLastChild :: "addr option \<Rightarrow> obj \<Rightarrow> obj" where
  "setLastChild c ob =
     (case ob of
        ODocument d \<Rightarrow> ODocument (d\<lparr>lastChild := c\<rparr>)
      | OElement n \<Rightarrow> OElement (n\<lparr>lastChild := c\<rparr>)
      | OText n \<Rightarrow> OText (n\<lparr>lastChild := c\<rparr>)
      | OComment n \<Rightarrow> OComment (n\<lparr>lastChild := c\<rparr>)
      | OEntityRef n \<Rightarrow> OEntityRef (n\<lparr>lastChild := c\<rparr>)
      | OAttribute a \<Rightarrow> OAttribute (a\<lparr>lastChild := c\<rparr>)
      | ODTD t \<Rightarrow> ODTD (t\<lparr>lastChild := c\<rparr>))"

definition SetParent :: "addr option \<Rightarrow> obj \<Rightarrow> obj" where
  "SetParent c ob =
     (case ob of
        ODocument d \<Rightarrow> ODocument (d\<lparr>parent := c\<rparr>)
      | OElement n \<Rightarrow> OElement (n\<lparr>parent := c\<rparr>)
      | OText n \<Rightarrow> OText (n\<lparr>parent := c\<rparr>)
      | OComment n \<Rightarrow> OComment (n\<lparr>parent := c\<rparr>)
      | OEntityRef n \<Rightarrow> OEntityRef (n\<lparr>parent := c\<rparr>)
      | OAttribute a \<Rightarrow> OAttribute (a\<lparr>parent := c\<rparr>)
      | ODTD t \<Rightarrow> ODTD (t\<lparr>parent := c\<rparr>))"

definition SetNextSibling :: "addr option \<Rightarrow> obj \<Rightarrow> obj" where
  "SetNextSibling c ob =
     (case ob of
        ODocument d \<Rightarrow> ODocument (d\<lparr>next := c\<rparr>)
      | OElement n \<Rightarrow> OElement (n\<lparr>next := c\<rparr>)
      | OText n \<Rightarrow> OText (n\<lparr>next := c\<rparr>)
      | OComment n \<Rightarrow> OComment (n\<lparr>next := c\<rparr>)
      | OEntityRef n \<Rightarrow> OEntityRef (n\<lparr>next := c\<rparr>)
      | OAttribute a \<Rightarrow> OAttribute (a\<lparr>next := c\<rparr>)
      | ODTD t \<Rightarrow> ODTD (t\<lparr>next := c\<rparr>))"

definition SetPrevSibling :: "addr option \<Rightarrow> obj \<Rightarrow> obj" where
  "SetPrevSibling c ob =
     (case ob of
        ODocument d \<Rightarrow> ODocument (d\<lparr>prev := c\<rparr>)
      | OElement n \<Rightarrow> OElement (n\<lparr>prev := c\<rparr>)
      | OText n \<Rightarrow> OText (n\<lparr>prev := c\<rparr>)
      | OComment n \<Rightarrow> OComment (n\<lparr>prev := c\<rparr>)
      | OEntityRef n \<Rightarrow> OEntityRef (n\<lparr>prev := c\<rparr>)
      | OAttribute a \<Rightarrow> OAttribute (a\<lparr>prev := c\<rparr>)
      | ODTD t \<Rightarrow> ODTD (t\<lparr>prev := c\<rparr>))"

text \<open>A write through a pointer: the object at the address is replaced in place.\<close>

definition store :: "heap \<Rightarrow> addr \<Rightarrow> (obj \<Rightarrow> obj) \<Rightarrow> heap" where
  "store h a f = (if a < length h then h[a := f (h ! a)] else h)"

text \<open>
  Modelled from the spec: the methods of \<open>Namespacer\<close> are not among the sources.
  An element has a local name and an optional namespace prefix and URI (section 3);
  an element without a namespace has the empty prefix and URI.
\<close>

definition LocalName :: "node \<Rightarrow> string" where
  "LocalName e = name e"

definition Prefix :: "node \<Rightarrow> string" where
  "Prefix e = (case node.ns e of None \<Rightarrow> [] | Some n \<Rightarrow> prefix n)"

definition URI :: "node \<Rightarrow> string" where
  "URI e = (case node.ns e of None \<Rightarrow> [] | Some n \<Rightarrow> href n)"

subsection \<open>Construction primitives\<close>

definition new_docnode :: "string \<Rightarrow> ElementType \<Rightarrow> addr option \<Rightarrow> docnode" where
  "new_docnode nm ty d =
     \<lparr>name = nm, etype = ty, firstChild = None, lastChild = None, parent = None,
      next = None, prev = None, doc = d\<rparr>"

definition new_node :: "string \<Rightarrow> ElementType \<Rightarrow> addr option \<Rightarrow> string \<Rightarrow> node" where
  "new_node nm ty d c =
     docnode.extend (new_docnode nm ty d)
       (node.fields c None None [])"

text \<open>
  Modelled from the spec: \<open>NewDocument\<close> is not among the sources. Section 4.2: it
  allocates a new empty Document with the version, encoding and standalone values
  supplied by the context. No DTD subset is attached yet.
\<close>

definition NewDocument :: "heap \<Rightarrow> string \<Rightarrow> string \<Rightarrow> int \<Rightarrow> addr \<times> heap" where
  "NewDocument h ver enc sa =
     alloc h (ODocument (docnode.extend (new_docnode [] DocumentNode None)
                (Document.fields ver enc sa None None)))"

text \<open>
  Modelled from the spec: \<open>CreateElement\<close>, \<open>CreateText\<close> and \<open>CreateComment\<close> are
  not among the sources. Section 4.4: they allocate the node, stamp its owning
  document and return it, and attach nothing.
\<close>

definition CreateElement :: "heap \<Rightarrow> addr option \<Rightarrow> string \<Rightarrow> error + addr \<times> heap" where
  "CreateElement h d nm = Inr (alloc h (OElement (new_node nm ElementNode d [])))"

definition CreateText :: "heap \<Rightarrow> addr option \<Rightarrow> string \<Rightarrow> error + addr \<times> heap" where
  "CreateText h d c = Inr (alloc h (OText (new_node [] TextNode d c)))"

definition CreateComment :: "heap \<Rightarrow> addr option \<Rightarrow> string \<Rightarrow> error + addr \<times> heap" where
  "CreateComment h d c = Inr (alloc h (OComment (new_node [] CommentNode d c)))"

text \<open>
  Modelled from the spec: \<open>AddChild\<close> is not among the sources. Section 4.4: it
  keeps the parent, sibling, first-child and last-child links consistent; the child
  becomes the last child of the parent. A nil or missing parent is a nil dereference.
\<close>

definition AddChild :: "heap \<Rightarrow> addr option \<Rightarrow> addr \<Rightarrow> (error option \<times> heap) outcome" where
  "AddChild h p c =
     (case p of
        None \<Rightarrow> Panic nil_dereference
      | Some pa \<Rightarrow>
          (case deref h pa of
             None \<Rightarrow> Panic nil_dereference
           | Some pob \<Rightarrow>
               (case LastChild pob of
                  None \<Rightarrow>
                    Done (None,
                      store (store (store h pa (setFirstChild (Some c)))
                                pa (setLastChild (Some c)))
                        c (SetParent (Some pa)))
                | Some l \<Rightarrow>
                    Done (None,
                      store (store (store (store h l (SetNextSibling (Some c)))
                                       c (SetPrevSibling (Some l)))
                                pa (setLastChild (Some c)))
                        c (SetParent (Some pa))))))"

text \<open>
  Modelled from the spec: \<open>AddContent\<close> is not among the sources. Section 4.2 allows
  the bytes appended to an element to become a distinct Text child, in document
  order; a Text node takes the bytes at the end of its own content. On any other
  node type the operation is refused and the tree is left as it was (section 4.4).
\<close>

definition AddContent :: "heap \<Rightarrow> addr \<Rightarrow> string \<Rightarrow> (error option \<times> heap) outcome" where
  "AddContent h a b =
     (case deref h a of
        None \<Rightarrow> Panic nil_dereference
      | Some (OElement e) \<Rightarrow>
          (case CreateText h (doc e) b of
             Inl err \<Rightarrow> Done (Some err, h)
           | Inr (t, h1) \<Rightarrow> AddChild h1 (Some a) t)
      | Some (OText n) \<Rightarrow>
          Done (None, store h a (\<lambda>_. OText (n\<lparr>node.content := node.content n @ b\<rparr>)))
      | Some _ \<Rightarrow> Done (Some ErrInvalidOperation, h))"

text \<open>The nodes reached from a start address along the sibling links.\<close>

fun chain :: "nat \<Rightarrow> heap \<Rightarrow> addr option \<Rightarrow> addr list" where
  "chain 0 h a = []"
| "chain (Suc k) h None = []"
| "chain (Suc k) h (Some a) =
     (case deref h a of
        None \<Rightarrow> []
      | Some ob \<Rightarrow> a # chain k h (NextSibling ob))"

text \<open>
  Modelled from the spec: \<open>CreateAttribute\<close>, \<open>Attribute.Value\<close> and \<open>SetAttribute\<close>
  are not among the sources. An attribute has a name and a literal value text
  (section 3); the struct has no field for the value, which is kept in a Text child.
  Section 4.4: \<open>SetAttribute\<close> fails with the duplicate-attribute error if the name
  already exists on the element (the existing value is retained), and otherwise
  appends to the attribute chain, preserving insertion order.
\<close>

definition CreateAttribute :: "heap \<Rightarrow> addr option \<Rightarrow> string \<Rightarrow> string \<Rightarrow> addr \<times> heap" where
  "CreateAttribute h d nm v =
     (let (a, h1) = alloc h (OAttribute (docnode.extend (new_docnode nm AttributeNode d)
                                (Attribute.fields AttrInvalid False None)));
          (t, h2) = alloc h1 (OText (new_node [] TextNode d v))
      in (a, store (store (store h2 a (setFirstChild (Some t)))
                      a (setLastChild (Some t)))
               t (SetParent (Some a))))"

definition Value :: "heap \<Rightarrow> obj \<Rightarrow> string" where
  "Value h ob =
     (case FirstChild ob of
        None \<Rightarrow> []
      | Some t \<Rightarrow> (case deref h t of None \<Rightarrow> [] | Some tob \<Rightarrow> Content tob))"

definition SetAttribute :: "heap \<Rightarrow> addr \<Rightarrow> string \<Rightarrow> string \<Rightarrow> (error option \<times> heap) outcome" where
  "SetAttribute h e nm v =
     (case deref h e of
        Some (OElement n) \<Rightarrow>
          (let attrs = chain (length h) h (properties n) in
           if \<exists>a \<in> set attrs. Name (h ! a) = nm then Done (Some ErrDuplicateAttribute, h)
           else
             (case CreateAttribute h (doc n) nm v of
                (a, h1) \<Rightarrow>
                  (case attrs of
                     [] \<Rightarrow>
                       Done (None,
                         store (store h1 e (\<lambda>_. OElement (n\<lparr>properties := Some a\<rparr>)))
                           a (SetParent (Some e)))
                   | _ \<Rightarrow>
                       Done (None,
                         store (store (store h1 (last attrs) (SetNextSibling (Some a)))
                                  a (SetPrevSibling (Some (last attrs))))
                           a (SetParent (Some e))))))
      | Some _ \<Rightarrow> Panic interface_conversion
      | None \<Rightarrow> Panic nil_dereference)"

section \<open>Entities\<close>

text \<open>
  Modelled from the spec: \<open>newEntity\<close> is not among the sources. Its arguments, in
  the order of the calls that build the predefined entities, are the name, the entity
  class, the external and system identifiers, the resolved content and the original
  (pre-substitution) text (section 3).
\<close>

definition newEntity :: "string \<Rightarrow> EntityType \<Rightarrow> string \<Rightarrow> string \<Rightarrow> string \<Rightarrow> string \<Rightarrow> Entity" where
  "newEntity nm ty publicID sysID c orig' =
     node.extend (new_node nm EntityNode None [])
       (Entity.fields orig' c ty publicID sysID [] False 0)"

definition EntityLT :: Entity where
  "EntityLT = newEntity ''lt'' InternalPredefinedEntity [] [] ''<'' ''&lt;''"

definition EntityGT :: Entity where
  "EntityGT = newEntity ''gt'' InternalPredefinedEntity [] [] ''>'' ''&gt;''"

definition EntityAmpersand :: Entity where
  "EntityAmpersand = newEntity ''amp'' InternalPredefinedEntity [] [] ''&'' ''&amp;''"

definition EntityApostrophe :: Entity where
  "EntityApostrophe = newEntity ''apos'' InternalPredefinedEntity [] [] [CHR 0x27] ''&apos;''"

definition EntityQuote :: Entity where
  "EntityQuote = newEntity ''quot'' InternalPredefinedEntity [] [] [CHR 0x22] ''&quot;''"

text \<open>
  Modelled from the spec: \<open>resolvePredefinedEntity\<close> is not among the sources.
  Section 4.3: the fixed predefined-entity table of the five names.
\<close>

definition resolvePredefinedEntity :: "string \<Rightarrow> Entity option" where
  "resolvePredefinedEntity nm =
     (if nm = ''lt'' then Some EntityLT
      else if nm = ''gt'' then Some EntityGT
      else if nm = ''amp'' then Some EntityAmpersand
      else if nm = ''apos'' then Some EntityApostrophe
      else if nm = ''quot'' then Some EntityQuote
      else None)"

text \<open>
  The lookup method \<open>Document.GetEntity\<close> is not among the sources, and the builder
  below takes it as a parameter: from the store, the receiver and the name to the
  pair of results (the entity, and whether it was found), or a panic.
\<close>

type_synonym entity_lookup = "heap \<Rightarrow> addr option \<Rightarrow> string \<Rightarrow> (Entity option \<times> bool) outcome"

text \<open>
  Modelled from the spec: one such lookup, over the layered tables of section 2 and
  section 3 (document-internal, then document-external, with standalone-document
  semantics): the general entities of the internal subset, then, unless the document
  is marked standalone, those of the external subset.
\<close>

definition subset_entity :: "heap \<Rightarrow> addr option \<Rightarrow> string \<Rightarrow> Entity option" where
  "subset_entity h a nm =
     (case a of
        None \<Rightarrow> None
      | Some da \<Rightarrow> (case deref h da of Some (ODTD t) \<Rightarrow> entities t nm | _ \<Rightarrow> None))"

definition Document_GetEntity :: entity_lookup where
  "Document_GetEntity h d nm =
     (case d of
        None \<Rightarrow> Panic nil_dereference
      | Some da \<Rightarrow>
          (case deref h da of
             Some (ODocument D) \<Rightarrow>
               (case subset_entity h (intSubset D) nm of
                  Some e \<Rightarrow> Done (Some e, True)
                | None \<Rightarrow>
                    if Document.standalone D \<noteq> 1
                    then (case subset_entity h (extSubset D) nm of
                            Some e \<Rightarrow> Done (Some e, True)
                          | None \<Rightarrow> Done (None, False))
                    else Done (None, False))
           | _ \<Rightarrow> Panic nil_dereference))"

section \<open>The tree builder\<close>

text \<open>
  The declaration of \<open>parserCtx\<close> is not among the sources; these are the fields the
  builder reads and writes. \<open>inSubset\<close> is 0 outside the DTD, 1 in the internal and 2
  in the external subset.
\<close>

record parserCtx =
  version :: string
  encoding :: string
  standalone :: int
  doc :: "addr option"
  inSubset :: int
  keepBlanks :: bool

record TreeBuilder =
  doc :: "addr option"
  node :: "addr option"

text \<open>
  The builder \<open>t\<close>, the context behind the \<open>sax.Context\<close> argument and the store, passed
  through every handler. A handler returns its \<open>error\<close> result with the state after.
\<close>

record state =
  tb :: TreeBuilder
  ctx :: parserCtx
  mem :: heap

type_synonym sax_Attribute = "string \<times> string"
type_synonym sax_Namespace = "string \<times> string"

definition StartDocument :: "state \<Rightarrow> (error option \<times> state) outcome" where
  "StartDocument s =
     (case NewDocument (mem s) (parserCtx.version (ctx s)) (parserCtx.encoding (ctx s))
             (parserCtx.standalone (ctx s)) of
        (d, h1) \<Rightarrow> Done (None, s\<lparr>tb := (tb s)\<lparr>TreeBuilder.doc := Some d\<rparr>, mem := h1\<rparr>))"

definition EndDocument :: "state \<Rightarrow> (error option \<times> state) outcome" where
  "EndDocument s =
     Done (None, s\<lparr>ctx := (ctx s)\<lparr>parserCtx.doc := TreeBuilder.doc (tb s)\<rparr>,
                   tb := (tb s)\<lparr>TreeBuilder.doc := None\<rparr>\<rparr>)"

text \<open>The \<open>range attrs\<close> loop of \<open>StartElement\<close>: the result of each call is dropped.\<close>

fun SetAttributes :: "heap \<Rightarrow> addr \<Rightarrow> sax_Attribute list \<Rightarrow> heap outcome" where
  "SetAttributes h e [] = Done h"
| "SetAttributes h e (attr # attrs) =
     (case SetAttribute h e (fst attr) (snd attr) of
        Done (_, h1) \<Rightarrow> SetAttributes h1 e attrs
      | Panic m \<Rightarrow> Panic m
      | OutOfFuel \<Rightarrow> OutOfFuel)"

definition StartElement :: "state \<Rightarrow> string \<Rightarrow> string \<Rightarrow> string \<Rightarrow> sax_Namespace list
    \<Rightarrow> sax_Attribute list \<Rightarrow> (error option \<times> state) outcome" where
  "StartElement s localname prefix' uri' namespaces attrs =
     (case CreateElement (mem s) (TreeBuilder.doc (tb s)) localname of
        Inl err \<Rightarrow> Done (Some err, s)
      | Inr (e, h1) \<Rightarrow>
          (case SetAttributes h1 e attrs of
             Done h2 \<Rightarrow>
               (case (if TreeBuilder.node (tb s) = None
                      then AddChild h2 (TreeBuilder.doc (tb s)) e
                      else AddChild h2 (TreeBuilder.node (tb s)) e) of
                  Done (_, h3) \<Rightarrow>
                    Done (None, s\<lparr>tb := (tb s)\<lparr>TreeBuilder.node := Some e\<rparr>, mem := h3\<rparr>)
                | Panic m \<Rightarrow> Panic m
                | OutOfFuel \<Rightarrow> OutOfFuel)
           | Panic m \<Rightarrow> Panic m
           | OutOfFuel \<Rightarrow> OutOfFuel))"

definition EndElement :: "state \<Rightarrow> string \<Rightarrow> string \<Rightarrow> string \<Rightarrow> (error option \<times> state) outcome" where
  "EndElement s localname prefix' uri' =
     (case TreeBuilder.node (tb s) of
        None \<Rightarrow> Done (None, s)
      | Some n \<Rightarrow>
          (case deref (mem s) n of
             Some (OElement e) \<Rightarrow>
               if LocalName e = localname \<and> Prefix e = prefix' \<and> URI e = uri'
               then Done (None, s\<lparr>tb := (tb s)\<lparr>TreeBuilder.node := Parent (OElement e)\<rparr>\<rparr>)
               else Done (None, s)
           | _ \<Rightarrow> Done (None, s)))"

definition Characters :: "state \<Rightarrow> string \<Rightarrow> (error option \<times> state) outcome" where
  "Characters s data =
     (case TreeBuilder.node (tb s) of
        None \<Rightarrow> Done (Some (errors_New ''text content placed in wrong location''), s)
      | Some n \<Rightarrow>
          (case AddContent (mem s) n data of
             Done (err, h1) \<Rightarrow> Done (err, s\<lparr>mem := h1\<rparr>)
           | Panic m \<Rightarrow> Panic m
           | OutOfFuel \<Rightarrow> OutOfFuel))"

text \<open>The assignment \<open>ctx.doc.standalone = v\<close>.\<close>

definition set_standalone :: "heap \<Rightarrow> addr \<Rightarrow> int \<Rightarrow> heap" where
  "set_standalone h d v =
     store h d (\<lambda>ob. case ob of ODocument D \<Rightarrow> ODocument (D\<lparr>Document.standalone := v\<rparr>) | _ \<Rightarrow> ob)"

definition doc_standalone :: "heap \<Rightarrow> addr \<Rightarrow> int option" where
  "doc_standalone h d =
     (case deref h d of Some (ODocument D) \<Rightarrow> Some (Document.standalone D) | _ \<Rightarrow> None)"

text \<open>
  \<open>GetEntity\<close> returns its two results, the entity and the error, with the state
  after. Reading \<open>ctx.doc.standalone\<close> through a pointer that holds no document is a
  nil dereference.
\<close>

definition GetEntity :: "entity_lookup \<Rightarrow> state \<Rightarrow> string
    \<Rightarrow> ((Entity option \<times> error option) \<times> state) outcome" where
  "GetEntity lookup s nm =
     (if parserCtx.inSubset (ctx s) = 0 \<and> resolvePredefinedEntity nm \<noteq> None
      then Done ((resolvePredefinedEntity nm, None), s)
      else
        (case parserCtx.doc (ctx s) of
           None \<Rightarrow>
             (case lookup (mem s) None nm of
                Done (ret, _) \<Rightarrow> Done ((ret, None), s)
              | Panic m \<Rightarrow> Panic m
              | OutOfFuel \<Rightarrow> OutOfFuel)
         | Some d \<Rightarrow>
             (case doc_standalone (mem s) d of
                None \<Rightarrow> Panic nil_dereference
              | Some sa \<Rightarrow>
                  if sa \<noteq> 1 then
                    (case lookup (mem s) (Some d) nm of
                       Done (ret, _) \<Rightarrow> Done ((ret, None), s)
                     | Panic m \<Rightarrow> Panic m
                     | OutOfFuel \<Rightarrow> OutOfFuel)
                  else if parserCtx.inSubset (ctx s) = 2 then
                    (case lookup (set_standalone (mem s) d 0) (Some d) nm of
                       Done (ret, _) \<Rightarrow>
                         Done ((ret, None),
                           s\<lparr>mem := set_standalone (set_standalone (mem s) d 0) d 1\<rparr>)
                     | Panic m \<Rightarrow> Panic m
                     | OutOfFuel \<Rightarrow> OutOfFuel)
                  else
                    (case lookup (mem s) (Some d) nm of
                       Done (ret, ok) \<Rightarrow>
                         if \<not> ok then
                           (case lookup (set_standalone (mem s) d 0) (Some d) nm of
                              Done (ret1, ok1) \<Rightarrow>
                                if \<not> ok1 then
                                  Done ((None,
                                         Some (errors_New (''Entity('' @ nm @
                                           '') document marked standalone but requires eternal subset''))),
                                        s\<lparr>mem := set_standalone (mem s) d 0\<rparr>)
                                else
                                  Done ((ret1, None),
                                    s\<lparr>mem := set_standalone (set_standalone (mem s) d 0) d 1\<rparr>)
                            | Panic m \<Rightarrow> Panic m
                            | OutOfFuel \<Rightarrow> OutOfFuel)
                         else Done ((ret, None), s)
                     | Panic m \<Rightarrow> Panic m
                     | OutOfFuel \<Rightarrow> OutOfFuel))))"

section \<open>The serializer (dump.go)\<close>

definition dumpDocContent :: "writer \<Rightarrow> obj \<Rightarrow> (error option \<times> writer) outcome" where
  \<open>dumpDocContent out n =
     (case n of
        ODocument d \<Rightarrow>
          (let out1 = io_WriteString out ''<?xml version="'';
               version' = (if Document.version d = [] then ''1.0'' else Document.version d);
               out2 = io_WriteString out1 (version' @ ''"'');
               out3 = (if Document.encoding d \<noteq> []
                       then io_WriteString out2 ('' encoding="'' @ Document.encoding d @ ''"'')
                       else out2);
               out4 = (if Document.standalone d = StandaloneExplicitNo
                       then io_WriteString out3 '' standalone="no"''
                       else if Document.standalone d = StandaloneExplicitYes
                       then io_WriteString out3 '' standalone="yes"''
                       else out3)
           in Done (None, io_WriteString out4 ''?>\<newline>''))
      | _ \<Rightarrow> Panic interface_conversion)\<close>

text \<open>
  The attribute loop of \<open>DumpNode\<close>. The tree walks take a step count: the links of a
  store may form a cycle, on which the source does not return.
\<close>

fun dumpAttrs :: "nat \<Rightarrow> heap \<Rightarrow> writer \<Rightarrow> addr option \<Rightarrow> writer outcome" where
  "dumpAttrs 0 h out a = OutOfFuel"
| "dumpAttrs (Suc k) h out None = Done out"
| \<open>dumpAttrs (Suc k) h out (Some a) =
     (case deref h a of
        Some (OAttribute attr) \<Rightarrow>
          (let out1 = io_WriteString out ('' '' @ Name (OAttribute attr) @ ''="'');
               out2 = snd (escapeAttrValue out1 (Value h (OAttribute attr)));
               out3 = io_WriteString out2 ''"''
           in case NextSibling (OAttribute attr) of
                None \<Rightarrow> Done out3
              | Some a1 \<Rightarrow> dumpAttrs k h out3 (Some a1))
      | Some _ \<Rightarrow> Panic interface_conversion
      | None \<Rightarrow> Panic nil_dereference)\<close>

text \<open>
  \<open>DumpNode\<close>, with the loop over the children that it and \<open>DumpDoc\<close> both run
  (\<open>dumpChildren\<close>): each child is dumped in turn and the first error ends the loop.
  Of the stored types the element is the one taken to be a \<open>Namespacer\<close>.
\<close>

fun DumpNode :: "nat \<Rightarrow> heap \<Rightarrow> writer \<Rightarrow> addr \<Rightarrow> (error option \<times> writer) outcome"
  and dumpChildren :: "nat \<Rightarrow> heap \<Rightarrow> writer \<Rightarrow> addr option \<Rightarrow> (error option \<times> writer) outcome"
where
  "DumpNode 0 h out a = OutOfFuel"
| "DumpNode (Suc k) h out a =
     (case deref h a of
        None \<Rightarrow> Panic nil_dereference
      | Some n \<Rightarrow>
          if Type n = DocumentNode then
            (case dumpDocContent out n of
               Done (Some err, w) \<Rightarrow> Done (Some err, w)
             | Done (None, w) \<Rightarrow> Done (None, w)
             | Panic m \<Rightarrow> Panic m
             | OutOfFuel \<Rightarrow> OutOfFuel)
          else if Type n = CommentNode then
            (let out1 = io_WriteString out ''<!--'';
                 out2 = snd (Write out1 (Content n))
             in Done (None, io_WriteString out2 ''-->\<newline>''))
          else if Type n = EntityRefNode then
            (let out1 = io_WriteString out ''&'';
                 out2 = io_WriteString out1 (Name n)
             in Done (None, io_WriteString out2 '';''))
          else if Type n = TextNode then
            (if Content n = XMLTextNoEnc then Panic ''unimplemented''
             else Done (None, snd (escapeText out (Content n) False)))
          else
            (let name' = (case n of
                            OElement e \<Rightarrow>
                              if Prefix e \<noteq> [] then Prefix e @ '':'' @ Name n else Name n
                          | _ \<Rightarrow> Name n);
                 out1 = io_WriteString out ''<'';
                 out2 = io_WriteString out1 name'
             in case (case n of
                        OElement e \<Rightarrow> dumpAttrs k h out2 (properties e)
                      | _ \<Rightarrow> Done out2) of
                  Panic m \<Rightarrow> Panic m
                | OutOfFuel \<Rightarrow> OutOfFuel
                | Done out3 \<Rightarrow>
                    if (case n of OElement e \<Rightarrow> FirstChild n = None | _ \<Rightarrow> False)
                    then Done (None, io_WriteString out3 ''/>'')
                    else
                      (case dumpChildren k h (io_WriteString out3 ''>'') (FirstChild n) of
                         Done (Some err, w) \<Rightarrow> Done (Some err, w)
                       | Done (None, w) \<Rightarrow>
                           Done (None,
                             io_WriteString (io_WriteString (io_WriteString w ''</'') name') ''>'')
                       | Panic m \<Rightarrow> Panic m
                       | OutOfFuel \<Rightarrow> OutOfFuel)))"
| "dumpChildren 0 h out c = OutOfFuel"
| "dumpChildren (Suc k) h out None = Done (None, out)"
| "dumpChildren (Suc k) h out (Some c) =
     (case DumpNode k h out c of
        Done (Some err, w) \<Rightarrow> Done (Some err, w)
      | Done (None, w) \<Rightarrow>
          (case deref h c of
             None \<Rightarrow> Panic nil_dereference
           | Some n \<Rightarrow> dumpChildren k h w (NextSibling n))
      | Panic m \<Rightarrow> Panic m
      | OutOfFuel \<Rightarrow> OutOfFuel)"

definition DumpDoc :: "nat \<Rightarrow> heap \<Rightarrow> writer \<Rightarrow> addr option \<Rightarrow> (error option \<times> writer) outcome" where
  "DumpDoc k h out d =
     (case d of
        None \<Rightarrow> Panic nil_dereference
      | Some da \<Rightarrow>
          (case DumpNode k h out da of
             Done (Some err, w) \<Rightarrow> Done (Some err, w)
           | Done (None, w) \<Rightarrow>
               (case deref h da of
                  None \<Rightarrow> Panic nil_dereference
                | Some n \<Rightarrow>
                    (case dumpChildren k h w (FirstChild n) of
                       Done (Some err, w1) \<Rightarrow> Done (Some err, w1)
                     | Done (None, w1) \<Rightarrow> Done (None, io_WriteString w1 ''\<newline>'')
                     | Panic m \<Rightarrow> Panic m
                     | OutOfFuel \<Rightarrow> OutOfFuel))
           | Panic m \<Rightarrow> Panic m
           | OutOfFuel \<Rightarrow> OutOfFuel))"

section \<open>Event sequences\<close>

text \<open>
  The notifications of the SAX interface that the properties below deliver, and a
  tokenizer that delivers them in order and stops at the first failure.
\<close>

datatype event =
    EvStartDocument
  | EvEndDocument
  | EvStartElement string string string "sax_Namespace list" "sax_Attribute list"
  | EvEndElement string string string
  | EvCharacters string

fun notify :: "state \<Rightarrow> event \<Rightarrow> (error option \<times> state) outcome" where
  "notify s EvStartDocument = StartDocument s"
| "notify s EvEndDocument = EndDocument s"
| "notify s (EvStartElement localname prefix' uri' namespaces attrs) =
     StartElement s localname prefix' uri' namespaces attrs"
| "notify s (EvEndElement localname prefix' uri') = EndElement s localname prefix' uri'"
| "notify s (EvCharacters data) = Characters s data"

fun deliver :: "state \<Rightarrow> event list \<Rightarrow> (error option \<times> state) outcome" where
  "deliver s [] = Done (None, s)"
| "deliver s (ev # evs) =
     (case notify s ev of
        Done (None, s1) \<Rightarrow> deliver s1 evs
      | Done (Some err, s1) \<Rightarrow> Done (Some err, s1)
      | Panic m \<Rightarrow> Panic m
      | OutOfFuel \<Rightarrow> OutOfFuel)"

text \<open>A fresh builder (\<open>&TreeBuilder{}\<close>), a context and an empty store.\<close>

definition initial :: "parserCtx \<Rightarrow> state" where
  "initial c = \<lparr>tb = \<lparr>TreeBuilder.doc = None, node = None\<rparr>, ctx = c, mem = []\<rparr>"

section \<open>Concrete documents and states\<close>

text \<open>
  The context of a document declared as version 1.0 with no encoding and no
  standalone declaration, and the five events of the end-to-end property.
\<close>

definition ctx_1_0 :: parserCtx where
  "ctx_1_0 = \<lparr>version = ''1.0'', encoding = [], standalone = StandaloneNoXMLDecl,
              doc = None, inSubset = 0, keepBlanks = False\<rparr>"

definition root_hi :: "event list" where
  "root_hi = [EvStartDocument, EvStartElement ''root'' [] [] [] [], EvCharacters ''hi'',
              EvEndElement ''root'' [] [], EvEndDocument]"

text \<open>The builder between the start and the end of the element \<open>root\<close>.\<close>

definition open_root :: state where
  "open_root =
     \<lparr>tb = \<lparr>TreeBuilder.doc = Some 0, node = Some 1\<rparr>,
      ctx = ctx_1_0,
      mem = [ODocument (docnode.extend
                 ((new_docnode [] DocumentNode None)\<lparr>firstChild := Some 1, lastChild := Some 1\<rparr>)
                 (Document.fields ''1.0'' [] StandaloneNoXMLDecl None None)),
             OElement ((new_node ''root'' ElementNode (Some 0) [])\<lparr>parent := Some 0\<rparr>)]\<rparr>"

text \<open>
  A document marked standalone, with the entity \<open>int\<close> declared in its internal and
  the entity \<open>ext\<close> in its external subset, during the parse of its content.
\<close>

definition standalone_doc :: heap where
  "standalone_doc =
     [ODocument (docnode.extend (new_docnode [] DocumentNode None)
        (Document.fields ''1.0'' [] StandaloneExplicitYes (Some 1) (Some 2))),
      ODTD (docnode.extend (new_docnode [] DTDNode (Some 0))
        (DTD.fields [''int'' \<mapsto> newEntity ''int'' InternalGeneralEntity [] [] ''i'' ''i'']
           Map.empty [] [])),
      ODTD (docnode.extend (new_docnode [] DTDNode (Some 0))
        (DTD.fields [''ext'' \<mapsto> newEntity ''ext'' InternalGeneralEntity [] [] ''x'' ''x'']
           Map.empty [] []))]"

definition in_standalone_doc :: state where
  "in_standalone_doc =
     \<lparr>tb = \<lparr>TreeBuilder.doc = Some 0, node = None\<rparr>,
      ctx = \<lparr>version = ''1.0'', encoding = [], standalone = StandaloneExplicitYes,
             doc = Some 0, inSubset = 0, keepBlanks = False\<rparr>,
      mem = standalone_doc\<rparr>"

text \<open>A store holding one Comment node and one Text node, each with a child link set.\<close>

definition comment_and_text :: heap where
  "comment_and_text =
     [OComment ((new_node [] CommentNode None ''a'')\<lparr>firstChild := Some 1\<rparr>),
      OText ((new_node [] TextNode None ''a<b'')\<lparr>firstChild := Some 0\<rparr>),
      OText (new_node [] TextNode None ''textnoenc'')]"

text \<open>The builder after the document-start event, at top level.\<close>

definition after_StartDocument :: state where
  "after_StartDocument =
     \<lparr>tb = \<lparr>TreeBuilder.doc = Some 0, node = None\<rparr>,
      ctx = ctx_1_0,
      mem = [ODocument (docnode.extend (new_docnode [] DocumentNode None)
                 (Document.fields ''1.0'' [] StandaloneNoXMLDecl None None))]\<rparr>"

text \<open>The stored object is an \<open>*Element\<close>.\<close>

definition isElement :: "obj \<Rightarrow> bool" where
  "isElement ob = (case ob of OElement _ \<Rightarrow> True | _ \<Rightarrow> False)"

section \<open>The escaping table, as specified\<close>

text \<open>
  The Unicode scalar values, and the UTF-8 encoding of one (what \<open>utf8.EncodeRune\<close>
  writes for it): the input on which the escaping functions meet a given character.
\<close>

definition is_scalar :: "int \<Rightarrow> bool" where
  "is_scalar r \<longleftrightarrow> 0 \<le> r \<and> r \<le> 0x10FFFF \<and> \<not> (0xD800 \<le> r \<and> r \<le> 0xDFFF)"

definition utf8 :: "int \<Rightarrow> string" where
  "utf8 r =
     (if r < 0x80 then [char_of r]
      else if r < 0x800 then [char_of (0xC0 + r div 64), char_of (0x80 + r mod 64)]
      else if r < 0x10000 then
        [char_of (0xE0 + r div 4096), char_of (0x80 + r div 64 mod 64), char_of (0x80 + r mod 64)]
      else
        [char_of (0xF0 + r div 262144), char_of (0x80 + r div 4096 mod 64),
         char_of (0x80 + r div 64 mod 64), char_of (0x80 + r mod 64)])"

text \<open>
  The table of section 4.5 in the words of the property: the output for a scalar value
  in an attribute value (\<open>attr\<close>) or in text with newline-escaping off. The bound \<open>hi\<close>
  is the end of the band \<open>[0x80, hi)\<close> that is written as a hexadecimal reference; the
  property says \<open>0xDF\<close>.
\<close>

definition escaping_table :: "int \<Rightarrow> bool \<Rightarrow> int \<Rightarrow> string" where
  "escaping_table hi attr r =
     (if r = 0x22 then ''&#34;''
      else if r = 0x27 then ''&#39;''
      else if r = 0x26 then ''&amp;''
      else if r = 0x3C then ''&lt;''
      else if r = 0x3E then ''&gt;''
      else if r = 0x09 then (if attr then ''&#9;'' else utf8 r)
      else if r = 0x0A then (if attr then ''&#10;'' else utf8 r)
      else if r = 0x0D then ''&#13;''
      else if r < 0x20 \<or> (0x80 \<le> r \<and> r < hi) then ''&#x'' @ hex (nat r) @ '';''
      else if r \<notin> {0x20..0xDF77} \<union> {0xE000..0xFFFD} \<union> {0x10000..0x10FFFF}
        then [CHR 0xEF, CHR 0xBF, CHR 0xBD]
      else utf8 r)"

section \<open>Evaluation rules\<close>

lemmas heap_simps = deref_def store_def alloc_def new_node_def new_docnode_def
  docnode.extend_def node.fields_def Document.fields_def Attribute.fields_def DTD.fields_def
  node.extend_def Entity.fields_def

lemmas node_simps = the_docnode_def docnode.truncate_def Type_def Name_def FirstChild_def
  LastChild_def NextSibling_def Parent_def Content_def

lemmas escape_simps = escapeText_def escapeAttrValue_def escape_loop.simps DecodeRune_def
  escapeText_switch_def escapeAttrValue_switch_def isInCharacterRange_def Write_def
  io_WriteString_def Buffer_def esc_quot_def esc_apos_def esc_amp_def esc_lt_def esc_gt_def
  esc_tab_def esc_nl_def esc_cr_def esc_fffd_def

lemmas setter_simps = setFirstChild_def setLastChild_def SetParent_def SetNextSibling_def
  SetPrevSibling_def

section \<open>The builder's cursor\<close>

text \<open>
  C4. With an open cursor element, an element-end event returns success, and the
  cursor moves to the parent of the cursor element exactly when the local name, the
  prefix and the URI of the event all equal those of the cursor element; otherwise the
  state, and so the cursor, is unchanged.
\<close>

theorem EndElement_cursor:
  assumes "TreeBuilder.node (tb s) = Some n" and "deref (mem s) n = Some (OElement e)"
  shows "EndElement s localname prefix' uri' =
     Done (None,
       if LocalName e = localname \<and> Prefix e = prefix' \<and> URI e = uri'
       then s\<lparr>tb := (tb s)\<lparr>TreeBuilder.node := parent e\<rparr>\<rparr>
       else s)"
  using assms by (simp add: EndElement_def Parent_def the_docnode_def docnode.truncate_def)

theorem EndElement_cursor_witness:
  "EndElement open_root ''root'' [] [] =
     Done (None, open_root\<lparr>tb := \<lparr>TreeBuilder.doc = Some 0, node = Some 0\<rparr>\<rparr>)
   \<and> EndElement open_root ''toor'' [] [] = Done (None, open_root)
   \<and> EndElement open_root ''root'' ''p'' [] = Done (None, open_root)
   \<and> EndElement open_root ''root'' [] ''urn:x'' = Done (None, open_root)"
proof -
  have n: "TreeBuilder.node (tb open_root) = Some 1"
    by (simp add: open_root_def)
  have e: "deref (mem open_root) 1 =
      Some (OElement ((new_node ''root'' ElementNode (Some 0) [])\<lparr>parent := Some 0\<rparr>))"
    by (simp add: open_root_def deref_def)
  show ?thesis
    using EndElement_cursor [OF n e, of "''root''" "[]" "[]"]
      EndElement_cursor [OF n e, of "''toor''" "[]" "[]"]
      EndElement_cursor [OF n e, of "''root''" "''p''" "[]"]
      EndElement_cursor [OF n e, of "''root''" "[]" "''urn:x''"]
    by (simp add: LocalName_def Prefix_def URI_def heap_simps open_root_def)
qed

text \<open>The state the five events of the end-to-end property leave behind.\<close>

lemma root_hi_built:
  "deliver (initial c) root_hi =
     Done (None,
       \<lparr>tb = \<lparr>TreeBuilder.doc = None, node = Some 0\<rparr>,
        ctx = c\<lparr>parserCtx.doc := Some 0\<rparr>,
        mem = [ODocument (docnode.extend
                 ((new_docnode [] DocumentNode None)\<lparr>firstChild := Some 1, lastChild := Some 1\<rparr>)
                 (Document.fields (parserCtx.version c) (parserCtx.encoding c)
                    (parserCtx.standalone c) None None)),
               OElement ((new_node ''root'' ElementNode (Some 0) [])
                 \<lparr>firstChild := Some 2, lastChild := Some 2, parent := Some 0\<rparr>),
               OText ((new_node [] TextNode (Some 0) ''hi'')\<lparr>parent := Some 1\<rparr>)]\<rparr>)"
  by (simp add: root_hi_def initial_def StartDocument_def StartElement_def
      Characters_def EndElement_def EndDocument_def NewDocument_def CreateElement_def
      CreateText_def AddChild_def AddContent_def heap_simps node_simps setter_simps
      LocalName_def Prefix_def URI_def)

text \<open>
  C6. The claim is that after a document-end event both references of the builder are
  cleared. \<open>EndDocument\<close> hands the document to the context and clears the document
  reference only: after the five events of the end-to-end property the cursor still
  points to the Document node (address 0) that was handed over, so the builder is not
  back in its initial state.
\<close>

theorem EndDocument_leaves_cursor:
  "\<exists>s. deliver (initial ctx_1_0) root_hi = Done (None, s)
     \<and> parserCtx.doc (ctx s) = Some 0
     \<and> TreeBuilder.doc (tb s) = None
     \<and> TreeBuilder.node (tb s) = Some 0
     \<and> tb s \<noteq> tb (initial ctx_1_0)"
  unfolding root_hi_built by (simp add: initial_def)

section \<open>Element start and its attributes\<close>

lemma store_length [simp]: "length (store h a f) = length h"
  by (simp add: store_def)

lemma store_nth: "x < length h \<Longrightarrow> store h a f ! x = (if x = a then f (h ! a) else h ! x)"
  by (simp add: store_def)

lemma isElement_OElement [simp]: "isElement (OElement n)"
  by (simp add: isElement_def)

lemma isElement_setters [simp]:
  "isElement (setFirstChild c ob) = isElement ob"
  "isElement (setLastChild c ob) = isElement ob"
  "isElement (SetParent c ob) = isElement ob"
  "isElement (SetNextSibling c ob) = isElement ob"
  "isElement (SetPrevSibling c ob) = isElement ob"
  by (cases ob; simp add: isElement_def setter_simps)+

text \<open>A new attribute takes two fresh addresses and leaves every stored object alone.\<close>

lemma CreateAttribute_frame:
  assumes "CreateAttribute h d nm v = (a, h1)"
  shows "a = length h" and "length h1 = length h + 2" and "x < length h \<Longrightarrow> h1 ! x = h ! x"
  using assms
  by (auto simp: CreateAttribute_def alloc_def Let_def store_nth nth_append)

text \<open>On an element, \<open>SetAttribute\<close> returns (with or without an error); the store only grows.\<close>

lemma SetAttribute_ok:
  assumes "e < length h" and "isElement (h ! e)"
  shows "\<exists>err h1. SetAttribute h e nm v = Done (err, h1) \<and> length h \<le> length h1
           \<and> isElement (h1 ! e)"
proof -
  from assms obtain n where n: "deref h e = Some (OElement n)"
    by (cases "h ! e") (simp_all add: isElement_def deref_def)
  obtain a h1 where c: "CreateAttribute h (docnode.doc n) nm v = (a, h1)"
    by (cases "CreateAttribute h (docnode.doc n) nm v")
  note f = CreateAttribute_frame [OF c]
  from f assms have e1: "e < length h1" "h1 ! e = h ! e" "e \<noteq> a"
    by simp_all
  show ?thesis
    using assms n c f(2) e1
    by (auto simp: SetAttribute_def Let_def store_nth split: list.splits)
qed

lemma SetAttributes_ok:
  "e < length h \<Longrightarrow> isElement (h ! e) \<Longrightarrow>
     \<exists>h1. SetAttributes h e attrs = Done h1 \<and> length h \<le> length h1 \<and> isElement (h1 ! e)"
proof (induction attrs arbitrary: h)
  case Nil
  then show ?case by simp
next
  case (Cons attr attrs)
  from SetAttribute_ok [OF Cons.prems, of "fst attr" "snd attr"]
  obtain err h1 where s: "SetAttribute h e (fst attr) (snd attr) = Done (err, h1)"
    and l: "length h \<le> length h1" and el: "isElement (h1 ! e)"
    by blast
  from Cons.prems(1) l have "e < length h1" by simp
  from Cons.IH [OF this el] obtain h2 where
    "SetAttributes h1 e attrs = Done h2" "length h1 \<le> length h2" "isElement (h2 ! e)"
    by blast
  with s l show ?case by simp
qed

lemma AddChild_ok:
  "p < length h \<Longrightarrow> \<exists>err h1. AddChild h (Some p) c = Done (err, h1)"
  by (simp add: AddChild_def deref_def split: option.splits)

text \<open>
  C9. Whatever the attribute list of an element-start event is, duplicates included,
  \<open>StartElement\<close> returns success and moves the cursor to the new element, provided
  only that the insertion point (the cursor, or the document at top level) exists:
  the error of a rejected \<open>SetAttribute\<close> call is not returned.
\<close>

theorem StartElement_drops_attribute_errors:
  assumes "TreeBuilder.node (tb s) = Some p
           \<or> TreeBuilder.node (tb s) = None \<and> TreeBuilder.doc (tb s) = Some p"
    and "p < length (mem s)"
  shows "\<exists>s1. StartElement s localname prefix' uri' namespaces attrs = Done (None, s1)
           \<and> TreeBuilder.node (tb s1) = Some (length (mem s))"
proof -
  let ?e = "length (mem s)"
  let ?h1 = "mem s @ [OElement (new_node localname ElementNode (TreeBuilder.doc (tb s)) [])]"
  have c: "CreateElement (mem s) (TreeBuilder.doc (tb s)) localname = Inr (?e, ?h1)"
    by (simp add: CreateElement_def alloc_def)
  have "?e < length ?h1" and "isElement (?h1 ! ?e)"
    by simp_all
  from SetAttributes_ok [OF this, of attrs] obtain h2 where
    h2: "SetAttributes ?h1 ?e attrs = Done h2" and l: "length ?h1 \<le> length h2"
    by blast
  from l assms(2) have "p < length h2" by simp
  from AddChild_ok [OF this, of ?e] obtain err h3 where
    "AddChild h2 (Some p) ?e = Done (err, h3)"
    by blast
  with assms(1) c h2 show ?thesis
    by (auto simp: StartElement_def)
qed

text \<open>The second of two attributes of one name is rejected by \<open>SetAttribute\<close>.\<close>

lemma duplicate_rejected:
  "\<exists>h1 h2. CreateElement (mem after_StartDocument) (Some 0) ''e'' = Inr (1, h1)
     \<and> SetAttribute h1 1 ''a'' ''1'' = Done (None, h2)
     \<and> SetAttribute h2 1 ''a'' ''2'' = Done (Some ErrDuplicateAttribute, h2)"
  by (simp add: after_StartDocument_def CreateElement_def SetAttribute_def CreateAttribute_def
      heap_simps node_simps setter_simps Let_def eval_nat_numeral)

theorem StartElement_drops_attribute_errors_witness:
  "(\<exists>s1. StartElement after_StartDocument ''e'' [] [] [] [(''a'', ''1''), (''a'', ''2'')]
           = Done (None, s1)
      \<and> TreeBuilder.node (tb s1) = Some 1)
   \<and> (\<exists>h1 h2. CreateElement (mem after_StartDocument) (Some 0) ''e'' = Inr (1, h1)
     \<and> SetAttribute h1 1 ''a'' ''1'' = Done (None, h2)
     \<and> SetAttribute h2 1 ''a'' ''2'' = Done (Some ErrDuplicateAttribute, h2))"
proof -
  have "TreeBuilder.node (tb after_StartDocument) = Some 0
      \<or> TreeBuilder.node (tb after_StartDocument) = None
        \<and> TreeBuilder.doc (tb after_StartDocument) = Some 0"
    and "0 < length (mem after_StartDocument)"
    by (simp_all add: after_StartDocument_def)
  from StartElement_drops_attribute_errors [OF this, of "''e''" "[]" "[]" "[]"
      "[(''a'', ''1''), (''a'', ''2'')]"] duplicate_rejected
  show ?thesis by (simp add: after_StartDocument_def)
qed

section \<open>Entity resolution\<close>

lemma doc_standalone_set:
  "doc_standalone h d = Some v \<Longrightarrow> doc_standalone (set_standalone h d w) d = Some w"
  by (auto simp: doc_standalone_def set_standalone_def deref_def store_def
      split: if_splits obj.splits)

lemma set_standalone_restore:
  "doc_standalone h d = Some v \<Longrightarrow> set_standalone (set_standalone h d w) d v = h"
  by (auto simp: doc_standalone_def set_standalone_def deref_def store_def list_update_same_conv
      split: if_splits obj.splits)

lemma standalone_doc_flag: "doc_standalone standalone_doc 0 = Some 1"
  by (simp add: doc_standalone_def standalone_doc_def heap_simps StandaloneExplicitYes_def)

lemma standalone_doc_lookup:
  "Document_GetEntity standalone_doc (Some 0) ''int'' =
     Done (Some (newEntity ''int'' InternalGeneralEntity [] [] ''i'' ''i''), True)"
  "Document_GetEntity standalone_doc (Some 0) ''ext'' = Done (None, False)"
  "Document_GetEntity standalone_doc (Some 0) ''nope'' = Done (None, False)"
  by (simp_all add: Document_GetEntity_def subset_entity_def standalone_doc_def heap_simps
      StandaloneExplicitYes_def)

lemma standalone_doc_retry:
  "Document_GetEntity (set_standalone standalone_doc 0 0) (Some 0) ''ext'' =
     Done (Some (newEntity ''ext'' InternalGeneralEntity [] [] ''x'' ''x''), True)"
  "Document_GetEntity (set_standalone standalone_doc 0 0) (Some 0) ''nope'' = Done (None, False)"
  by (simp_all add: Document_GetEntity_def subset_entity_def standalone_doc_def heap_simps
      set_standalone_def StandaloneExplicitYes_def)

lemma in_standalone_doc_simps:
  "parserCtx.doc (ctx in_standalone_doc) = Some 0"
  "parserCtx.inSubset (ctx in_standalone_doc) = 0"
  "mem in_standalone_doc = standalone_doc"
  by (simp_all add: in_standalone_doc_def)

text \<open>
  C7. Outside DTD-subset processing (\<open>inSubset = 0\<close>), \<open>GetEntity\<close> returns for each of
  the names lt, gt, amp, apos and quot the predefined entity of that name, with no
  error and the state unchanged, whatever the lookup method, the store and the
  document reference of the context are (also with no document attached); the five
  entities expand to \<open><\<close>, \<open>>\<close>, \<open>&\<close>, the apostrophe and the double quote.
\<close>

theorem GetEntity_predefined:
  assumes "parserCtx.inSubset (ctx s) = 0"
  shows "GetEntity lookup s ''lt'' = Done ((Some EntityLT, None), s)
    \<and> GetEntity lookup s ''gt'' = Done ((Some EntityGT, None), s)
    \<and> GetEntity lookup s ''amp'' = Done ((Some EntityAmpersand, None), s)
    \<and> GetEntity lookup s ''apos'' = Done ((Some EntityApostrophe, None), s)
    \<and> GetEntity lookup s ''quot'' = Done ((Some EntityQuote, None), s)
    \<and> Entity.content EntityLT = ''<'' \<and> Entity.content EntityGT = ''>''
    \<and> Entity.content EntityAmpersand = ''&'' \<and> Entity.content EntityApostrophe = [CHR 0x27]
    \<and> Entity.content EntityQuote = [CHR 0x22]"
  using assms
  by (simp add: GetEntity_def resolvePredefinedEntity_def EntityLT_def EntityGT_def
      EntityAmpersand_def EntityApostrophe_def EntityQuote_def newEntity_def heap_simps)

theorem GetEntity_predefined_witness:
  "GetEntity Document_GetEntity (initial ctx_1_0) ''lt'' =
     Done ((Some EntityLT, None), initial ctx_1_0)
   \<and> parserCtx.doc (ctx (initial ctx_1_0)) = None \<and> mem (initial ctx_1_0) = []"
proof -
  have "parserCtx.inSubset (ctx (initial ctx_1_0)) = 0"
    by (simp add: initial_def ctx_1_0_def)
  from GetEntity_predefined [OF this, of Document_GetEntity] show ?thesis
    by (simp add: initial_def ctx_1_0_def)
qed

text \<open>
  C3. On a document whose standalone flag is set, in an ordinary context (outside the
  DTD, \<open>inSubset = 0\<close>), for every name whose lookup reaches the tables of the document
  (the predefined table, asked first, does not hold it): if the first lookup hits,
  its entity is returned; if it misses, the lookup is retried with the flag cleared;
  if the retry hits, the flag is restored (the state is as before the call) and the
  entity of the retry is returned; if the retry misses too, the call fails with the
  error that names the entity and says that the document is marked standalone but
  requires the external subset.
\<close>

theorem GetEntity_standalone:
  assumes "parserCtx.doc (ctx s) = Some d"
    and "doc_standalone (mem s) d = Some 1"
    and "parserCtx.inSubset (ctx s) = 0"
    and "resolvePredefinedEntity nm = None"
    and "lookup (mem s) (Some d) nm = Done (r1, ok1)"
    and "ok1 \<or> lookup (set_standalone (mem s) d 0) (Some d) nm = Done (r2, ok2)"
  shows "GetEntity lookup s nm =
     (if ok1 then Done ((r1, None), s)
      else if ok2 then Done ((r2, None), s)
      else Done ((None, Some (errors_New (''Entity('' @ nm @
                   '') document marked standalone but requires eternal subset''))),
                 s\<lparr>mem := set_standalone (mem s) d 0\<rparr>))"
  using assms set_standalone_restore [of "mem s" d 1 0]
  by (auto simp: GetEntity_def)

theorem GetEntity_standalone_witness:
  "GetEntity Document_GetEntity in_standalone_doc ''int'' =
     Done ((Some (newEntity ''int'' InternalGeneralEntity [] [] ''i'' ''i''), None), in_standalone_doc)
   \<and> GetEntity Document_GetEntity in_standalone_doc ''ext'' =
     Done ((Some (newEntity ''ext'' InternalGeneralEntity [] [] ''x'' ''x''), None), in_standalone_doc)
   \<and> GetEntity Document_GetEntity in_standalone_doc ''nope'' =
     Done ((None, Some (errors_New
         ''Entity(nope) document marked standalone but requires eternal subset'')),
       in_standalone_doc\<lparr>mem := set_standalone standalone_doc 0 0\<rparr>)"
proof -
  have np: "resolvePredefinedEntity ''int'' = None" "resolvePredefinedEntity ''ext'' = None"
    "resolvePredefinedEntity ''nope'' = None"
    by (simp_all add: resolvePredefinedEntity_def)
  show ?thesis
    using
      GetEntity_standalone [of in_standalone_doc 0 "''int''" Document_GetEntity
        "Some (newEntity ''int'' InternalGeneralEntity [] [] ''i'' ''i'')" True None False]
      GetEntity_standalone [of in_standalone_doc 0 "''ext''" Document_GetEntity None False
        "Some (newEntity ''ext'' InternalGeneralEntity [] [] ''x'' ''x'')" True]
      GetEntity_standalone [of in_standalone_doc 0 "''nope''" Document_GetEntity None False
        None False]
    by (simp add: np in_standalone_doc_simps standalone_doc_flag standalone_doc_lookup
        standalone_doc_retry)
qed

text \<open>
  C8. When \<open>GetEntity\<close> takes the standalone-retry path and both lookups miss, it
  returns an error and no entity, and the standalone field of the document, 1 before
  the call, is 0 in the state it leaves.
\<close>

theorem GetEntity_miss_leaves_standalone_cleared:
  assumes "parserCtx.doc (ctx s) = Some d"
    and "doc_standalone (mem s) d = Some 1"
    and "parserCtx.inSubset (ctx s) \<noteq> 2"
    and "parserCtx.inSubset (ctx s) \<noteq> 0 \<or> resolvePredefinedEntity nm = None"
    and "lookup (mem s) (Some d) nm = Done (r1, False)"
    and "lookup (set_standalone (mem s) d 0) (Some d) nm = Done (r2, False)"
  shows "\<exists>err s1. GetEntity lookup s nm = Done ((None, Some err), s1)
    \<and> doc_standalone (mem s1) d = Some 0"
  using assms doc_standalone_set [of "mem s" d 1 0]
  by (auto simp: GetEntity_def)

theorem GetEntity_miss_leaves_standalone_cleared_witness:
  "doc_standalone (mem in_standalone_doc) 0 = Some 1
   \<and> (\<exists>err s1. GetEntity Document_GetEntity in_standalone_doc ''nope''
                  = Done ((None, Some err), s1)
        \<and> doc_standalone (mem s1) 0 = Some 0)"
proof -
  have sa: "doc_standalone (mem in_standalone_doc) 0 = Some 1"
    by (simp add: in_standalone_doc_simps standalone_doc_flag)
  have np: "parserCtx.inSubset (ctx in_standalone_doc) \<noteq> 0
      \<or> resolvePredefinedEntity ''nope'' = None"
    by (simp add: resolvePredefinedEntity_def)
  have a: "parserCtx.inSubset (ctx in_standalone_doc) \<noteq> 2"
    by (simp add: in_standalone_doc_simps)
  have l1: "Document_GetEntity (mem in_standalone_doc) (Some 0) ''nope'' = Done (None, False)"
    by (simp add: in_standalone_doc_simps standalone_doc_lookup)
  have l2: "Document_GetEntity (set_standalone (mem in_standalone_doc) 0 0) (Some 0) ''nope''
      = Done (None, False)"
    by (simp add: in_standalone_doc_simps standalone_doc_retry)
  from GetEntity_miss_leaves_standalone_cleared
      [of in_standalone_doc 0 "''nope''" Document_GetEntity None None,
       OF in_standalone_doc_simps(1) sa a np l1 l2] sa
  show ?thesis by simp
qed

section \<open>Escaping\<close>

text \<open>What \<open>DecodeRune\<close> returns on a well-formed sequence of one to four bytes.\<close>

lemma DecodeRune_1:
  "(of_char c0 :: int) < 0x80 \<Longrightarrow> DecodeRune (c0 # rest) = (of_char c0, 1)"
  by (simp add: DecodeRune_def)

lemma DecodeRune_2:
  assumes "(of_char c0 :: int) = p0" "0xC2 \<le> p0" "p0 < 0xE0"
    and "(of_char c1 :: int) = b1" "0x80 \<le> b1" "b1 \<le> 0xBF"
  shows "DecodeRune (c0 # c1 # rest) = ((p0 mod 32) * 64 + b1 mod 64, 2)"
  using assms by (simp add: DecodeRune_def)

lemma DecodeRune_3:
  assumes "(of_char c0 :: int) = p0" "0xE0 \<le> p0" "p0 < 0xF0"
    and "(of_char c1 :: int) = b1" "0x80 \<le> b1" "b1 \<le> 0xBF"
    and "p0 = 0xE0 \<longrightarrow> 0xA0 \<le> b1" and "p0 = 0xED \<longrightarrow> b1 \<le> 0x9F"
    and "(of_char c2 :: int) = b2" "0x80 \<le> b2" "b2 \<le> 0xBF"
  shows "DecodeRune (c0 # c1 # c2 # rest) = ((p0 mod 16) * 4096 + (b1 mod 64) * 64 + b2 mod 64, 3)"
  using assms by (auto simp add: DecodeRune_def)

lemma DecodeRune_4:
  assumes "(of_char c0 :: int) = p0" "0xF0 \<le> p0" "p0 \<le> 0xF4"
    and "(of_char c1 :: int) = b1" "0x80 \<le> b1" "b1 \<le> 0xBF"
    and "p0 = 0xF0 \<longrightarrow> 0x90 \<le> b1" and "p0 = 0xF4 \<longrightarrow> b1 \<le> 0x8F"
    and "(of_char c2 :: int) = b2" "0x80 \<le> b2" "b2 \<le> 0xBF"
    and "(of_char c3 :: int) = b3" "0x80 \<le> b3" "b3 \<le> 0xBF"
  shows "DecodeRune (c0 # c1 # c2 # c3 # rest) =
    ((p0 mod 8) * 262144 + (b1 mod 64) * 4096 + (b2 mod 64) * 64 + b3 mod 64, 4)"
  using assms by (auto simp add: DecodeRune_def)

text \<open>A value below \<open>2^21\<close> in base 64, and decoding after encoding.\<close>

lemma split2: "(r::int) = 64 * (r div 64) + r mod 64" by simp
lemma split3: "(r::int) = 4096 * (r div 4096) + 64 * (r div 64 mod 64) + r mod 64"
proof -
  have "r div 64 = 64 * (r div 64 div 64) + r div 64 mod 64" by simp
  moreover have "r div 64 div 64 = r div 4096" by (simp add: div_mult2_eq [symmetric])
  ultimately have "r div 64 = 64 * (r div 4096) + r div 64 mod 64" by simp
  then have "64 * (r div 64) = 4096 * (r div 4096) + 64 * (r div 64 mod 64)" by simp
  then show ?thesis using split2 [of r] by linarith
qed
lemma split4: "(r::int) = 262144 * (r div 262144) + 4096 * (r div 4096 mod 64) + 64 * (r div 64 mod 64) + r mod 64"
proof -
  have "r div 4096 = 64 * (r div 4096 div 64) + r div 4096 mod 64" by simp
  moreover have "r div 4096 div 64 = r div 262144" by (simp add: div_mult2_eq [symmetric])
  ultimately have "r div 4096 = 64 * (r div 262144) + r div 4096 mod 64" by simp
  then have "4096 * (r div 4096) = 262144 * (r div 262144) + 4096 * (r div 4096 mod 64)" by simp
  then show ?thesis using split3 [of r] by linarith
qed

lemma mod_shift: "0 \<le> (x::int) \<Longrightarrow> x < k \<Longrightarrow> (c * k + x) mod k = x"
  by simp

lemma byte_id: "0 \<le> (x::int) \<Longrightarrow> x < 256 \<Longrightarrow> of_char (char_of x) = x"
  by simp

lemma cont_mod: "0 \<le> (x::int) \<Longrightarrow> x < 64 \<Longrightarrow> (0x80 + x) mod 64 = x"
  using mod_shift [of x 64 2] by simp

lemma decode2:
  assumes "0x80 \<le> r" "r < 0x800"
  shows "DecodeRune (utf8 r @ rest) = (r, 2)"
proof -
  define q m where "q = r div 64" and "m = r mod 64"
  have r: "r = 64 * q + m" and m: "0 \<le> m" "m < 64" by (simp_all add: q_def m_def)
  from assms r m have q: "2 \<le> q" "q < 32" by linarith+
  have u: "utf8 r = [char_of (0xC0 + q), char_of (0x80 + m)]"
    using assms by (simp add: utf8_def q_def m_def)
  have x: "(0xC0 + q) mod 32 = q" using q mod_shift [of q 32 6] by simp
  have "DecodeRune (char_of (0xC0 + q) # char_of (0x80 + m) # rest)
      = (((0xC0 + q) mod 32) * 64 + (0x80 + m) mod 64, 2)"
    using q m by (intro DecodeRune_2 byte_id) simp_all
  then have "DecodeRune (utf8 r @ rest) = (64 * q + m, 2)"
    using m by (simp add: u x cont_mod)
  with r show ?thesis by simp
qed

lemma decode3:
  assumes "0x800 \<le> r" "r < 0x10000" "\<not> (0xD800 \<le> r \<and> r \<le> 0xDFFF)"
  shows "DecodeRune (utf8 r @ rest) = (r, 3)"
proof -
  define a b c where "a = r div 4096" and "b = r div 64 mod 64" and "c = r mod 64"
  have r: "r = 4096 * a + 64 * b + c" unfolding a_def b_def c_def by (rule split3)
  have bc: "0 \<le> b" "b < 64" "0 \<le> c" "c < 64" by (simp_all add: b_def c_def)
  from assms r bc have a: "0 \<le> a" "a < 16" by linarith+
  from assms r bc have lo: "a = 0 \<longrightarrow> 32 \<le> b" by auto
  from assms r bc have hi: "a = 13 \<longrightarrow> b < 32" by auto
  have u: "utf8 r = [char_of (0xE0 + a), char_of (0x80 + b), char_of (0x80 + c)]"
    using assms by (simp add: utf8_def a_def b_def c_def)
  have x: "(0xE0 + a) mod 16 = a" using a mod_shift [of a 16 14] by simp
  have "DecodeRune (char_of (0xE0 + a) # char_of (0x80 + b) # char_of (0x80 + c) # rest)
      = (((0xE0 + a) mod 16) * 4096 + ((0x80 + b) mod 64) * 64 + (0x80 + c) mod 64, 3)"
    using a bc lo hi by (intro DecodeRune_3 byte_id) auto
  then have "DecodeRune (utf8 r @ rest) = (4096 * a + 64 * b + c, 3)"
    using bc by (simp add: u x cont_mod)
  with r show ?thesis by simp
qed

lemma decode4:
  assumes "0x10000 \<le> r" "r \<le> 0x10FFFF"
  shows "DecodeRune (utf8 r @ rest) = (r, 4)"
proof -
  define a b c d where "a = r div 262144" and "b = r div 4096 mod 64"
    and "c = r div 64 mod 64" and "d = r mod 64"
  have r: "r = 262144 * a + 4096 * b + 64 * c + d" unfolding a_def b_def c_def d_def by (rule split4)
  have bc: "0 \<le> b" "b < 64" "0 \<le> c" "c < 64" "0 \<le> d" "d < 64"
    by (simp_all add: b_def c_def d_def)
  from assms r bc have a: "0 \<le> a" "a \<le> 4" by linarith+
  from assms r bc have lo: "a = 0 \<longrightarrow> 16 \<le> b" by auto
  from assms r bc have hi: "a = 4 \<longrightarrow> b < 16" by auto
  have u: "utf8 r = [char_of (0xF0 + a), char_of (0x80 + b), char_of (0x80 + c), char_of (0x80 + d)]"
    using assms by (simp add: utf8_def a_def b_def c_def d_def)
  have x: "(0xF0 + a) mod 8 = a" using a mod_shift [of a 8 30] by simp
  have "DecodeRune (char_of (0xF0 + a) # char_of (0x80 + b) # char_of (0x80 + c) # char_of (0x80 + d) # rest)
      = (((0xF0 + a) mod 8) * 262144 + ((0x80 + b) mod 64) * 4096 + ((0x80 + c) mod 64) * 64
          + (0x80 + d) mod 64, 4)"
    using a bc lo hi by (intro DecodeRune_4 byte_id) auto
  then have "DecodeRune (utf8 r @ rest) = (262144 * a + 4096 * b + 64 * c + d, 4)"
    using bc by (simp add: u x cont_mod)
  with r show ?thesis by simp
qed

lemma decode1: "0 \<le> r \<Longrightarrow> r < 0x80 \<Longrightarrow> DecodeRune (utf8 r @ rest) = (r, 1)"
  by (simp add: DecodeRune_def utf8_def)

lemma DecodeRune_utf8:
  "is_scalar r \<Longrightarrow> DecodeRune (utf8 r @ rest) = (r, length (utf8 r))"
  using decode1 [of r rest] decode2 [of r rest] decode3 [of r rest] decode4 [of r rest]
  by (auto simp: is_scalar_def utf8_def)


lemma utf8_length: "0 < length (utf8 r)"
  by (simp add: utf8_def)

lemma utf8_FFFD_length: "length (utf8 0xFFFD) = 3"
  by (simp add: utf8_def)

text \<open>One encoded scalar value through the loop, into an unbounded sink.\<close>

lemma escape_loop_single:
  assumes "is_scalar r" and "room w = None"
  shows "escape_loop sw w (utf8 r) 0 0 =
     (None, w\<lparr>written := written w @
        (case sw r (length (utf8 r)) of None \<Rightarrow> utf8 r | Some esc \<Rightarrow> esc)\<rparr>)"
proof -
  have d: "DecodeRune (utf8 r) = (r, length (utf8 r))"
    using DecodeRune_utf8 [OF assms(1), of "[]"] by simp
  have stop: "escape_loop sw w1 (utf8 r) l (length (utf8 r)) = Write w1 (drop l (utf8 r))"
    for w1 l
    by (subst escape_loop.simps) simp
  show ?thesis
    using assms(2) utf8_length [of r]
    by (subst escape_loop.simps) (simp add: d stop Write_def split: option.split)
qed

lemma escape_loop_invalid_byte:
  assumes "0x80 \<le> (of_char c :: int)" and "room w = None"
    and "sw RuneError 1 = Some esc"
  shows "escape_loop sw w [c] 0 0 = (None, w\<lparr>written := written w @ esc\<rparr>)"
proof -
  have d: "DecodeRune [c] = (RuneError, 1)"
    using assms(1) by (auto simp: DecodeRune_def Let_def)
  have stop: "escape_loop sw w1 [c] l (Suc 0) = Write w1 (drop l [c])" for w1 l
    by (subst escape_loop.simps) simp
  show ?thesis
    using assms(2,3)
    by (subst escape_loop.simps) (simp add: d stop Write_def)
qed

lemma attr_switch_table:
  assumes "is_scalar r"
  shows "(case escapeAttrValue_switch r (length (utf8 r)) of None \<Rightarrow> utf8 r | Some esc \<Rightarrow> esc)
     = escaping_table 0xE0 True r"
  using assms utf8_FFFD_length
  by (auto simp: escapeAttrValue_switch_def escaping_table_def is_scalar_def
      isInCharacterRange_def Sprintf_X_def esc_quot_def esc_apos_def esc_amp_def esc_lt_def
      esc_gt_def esc_tab_def esc_nl_def esc_cr_def esc_fffd_def)

lemma text_switch_table:
  assumes "is_scalar r"
  shows "(case escapeText_switch False r (length (utf8 r)) of None \<Rightarrow> utf8 r | Some esc \<Rightarrow> esc)
     = escaping_table 0xE0 False r"
  using assms utf8_FFFD_length
  by (auto simp: escapeText_switch_def escaping_table_def is_scalar_def
      isInCharacterRange_def Sprintf_X_def esc_quot_def esc_apos_def esc_amp_def esc_lt_def
      esc_gt_def esc_tab_def esc_nl_def esc_cr_def esc_fffd_def)

text \<open>
  C2, as amended. For every Unicode scalar value, \<open>escapeAttrValue\<close> and \<open>escapeText\<close>
  (newline-escaping off) write for its encoding exactly what the table prescribes in
  the attribute-value and the text context, where the band written as \<open>&#x<HEX>;\<close> is
  \<open>[0x80, 0xE0)\<close>, so with U+00DF in it; and a byte that does not decode (a one-byte-wide
  decode of U+FFFD) is replaced by the encoding of U+FFFD in both contexts.
\<close>

theorem escaping_table_correct:
  assumes "is_scalar r" and "0x80 \<le> (of_char c :: int)"
  shows "escapeAttrValue Buffer (utf8 r) =
           (None, \<lparr>written = escaping_table 0xE0 True r, room = None\<rparr>)
       \<and> escapeText Buffer (utf8 r) False =
           (None, \<lparr>written = escaping_table 0xE0 False r, room = None\<rparr>)
       \<and> escapeAttrValue Buffer [c] = (None, \<lparr>written = [CHR 0xEF, CHR 0xBF, CHR 0xBD], room = None\<rparr>)
       \<and> escapeText Buffer [c] False = (None, \<lparr>written = [CHR 0xEF, CHR 0xBF, CHR 0xBD], room = None\<rparr>)"
proof -
  have b: "room Buffer = None" by (simp add: Buffer_def)
  have a1: "escapeAttrValue_switch RuneError 1 = Some esc_fffd"
    and a2: "escapeText_switch False RuneError 1 = Some esc_fffd"
    by (simp_all add: escapeAttrValue_switch_def escapeText_switch_def RuneError_def)
  show ?thesis
    using escape_loop_single [OF assms(1) b, of escapeAttrValue_switch]
      escape_loop_single [OF assms(1) b, of "escapeText_switch False"]
      escape_loop_invalid_byte [of c Buffer escapeAttrValue_switch esc_fffd, OF assms(2) b a1]
      escape_loop_invalid_byte [of c Buffer "escapeText_switch False" esc_fffd, OF assms(2) b a2]
    by (simp add: escapeAttrValue_def escapeText_def attr_switch_table [OF assms(1)]
        text_switch_table [OF assms(1)] Buffer_def esc_fffd_def)
qed

lemma hex_DF: "hex 223 = ''DF''"
  by (simp add: hex.simps hexdigit_def)

lemma utf8_DF: "utf8 0xDF = [CHR 0xC3, CHR 0x9F]"
  by (simp add: utf8_def char_of_def)

theorem escaping_table_correct_witness:
  "escapeAttrValue Buffer [CHR 0xC3, CHR 0x9F] = (None, \<lparr>written = ''&#xDF;'', room = None\<rparr>)
   \<and> escapeText Buffer [CHR 0xC3, CHR 0x9F] False = (None, \<lparr>written = ''&#xDF;'', room = None\<rparr>)
   \<and> escapeAttrValue Buffer [CHR 0xFF] = (None, \<lparr>written = [CHR 0xEF, CHR 0xBF, CHR 0xBD], room = None\<rparr>)
   \<and> escapeText Buffer [CHR 0xFF] False = (None, \<lparr>written = [CHR 0xEF, CHR 0xBF, CHR 0xBD], room = None\<rparr>)"
proof -
  have s: "is_scalar 0xDF" by (simp add: is_scalar_def)
  have c: "0x80 \<le> (of_char (CHR 0xFF) :: int)" by simp
  from escaping_table_correct [OF s c] show ?thesis
    by (simp add: utf8_DF escaping_table_def hex_DF)
qed

text \<open>
  C2, as stated, fails at U+00DF: the table with the band \<open>[0x80, 0xDF)\<close> lets it pass
  unchanged, and both functions write \<open>&#xDF;\<close> for it.
\<close>

theorem escaping_table_counterexample:
  "is_scalar 0xDF
   \<and> escaping_table 0xDF True 0xDF = utf8 0xDF
   \<and> escaping_table 0xDF False 0xDF = utf8 0xDF
   \<and> escapeAttrValue Buffer (utf8 0xDF) = (None, \<lparr>written = ''&#xDF;'', room = None\<rparr>)
   \<and> escapeText Buffer (utf8 0xDF) False = (None, \<lparr>written = ''&#xDF;'', room = None\<rparr>)
   \<and> utf8 0xDF \<noteq> ''&#xDF;''"
proof -
  have s: "is_scalar 0xDF" by (simp add: is_scalar_def)
  have b: "room Buffer = None" by (simp add: Buffer_def)
  have l: "length (utf8 0xDF) = 2" by (simp add: utf8_DF)
  show ?thesis
    using escape_loop_single [OF s b, of escapeAttrValue_switch]
      escape_loop_single [OF s b, of "escapeText_switch False"]
    by (simp add: s escapeAttrValue_def escapeText_def escaping_table_def l
        escapeAttrValue_switch_def escapeText_switch_def Sprintf_X_def hex_DF Buffer_def)
       (simp add: utf8_DF)
qed

section \<open>Serialization\<close>

text \<open>
  C5. The claim is that a Comment node is written as \<open><!--\<close>, its content unescaped
  and \<open>-->\<close>, and nothing more. \<open>DumpNode\<close> writes these and then a newline (which the
  source itself marks as not right), in one step and without a visit to the children.
\<close>

theorem DumpNode_comment:
  assumes "deref h a = Some n" and "Type n = CommentNode"
  shows "DumpNode (Suc k) h out a =
     Done (None,
       io_WriteString (snd (Write (io_WriteString out ''<!--'') (Content n))) ''-->\<newline>'')"
  using assms by simp

theorem DumpNode_comment_witness:
  "DumpNode 1 comment_and_text Buffer 0 =
     Done (None, \<lparr>written = ''<!--a-->\<newline>'', room = None\<rparr>)"
proof -
  have d: "deref comment_and_text 0 =
      Some (OComment ((new_node [] CommentNode None ''a'')\<lparr>firstChild := Some 1\<rparr>))"
    by (simp add: comment_and_text_def deref_def)
  have t: "Type (OComment ((new_node [] CommentNode None ''a'')\<lparr>firstChild := Some 1\<rparr>))
      = CommentNode"
    by (simp add: node_simps heap_simps)
  from DumpNode_comment [OF d t, of 0 Buffer] show ?thesis
    by (simp add: Buffer_def io_WriteString_def Write_def node_simps heap_simps)
qed

text \<open>
  C10. For a Text node, \<open>DumpNode\<close> panics if the content is exactly \<open>textnoenc\<close>; for
  any other content it returns success after one step, having passed the content
  through \<open>escapeText\<close> (newline-escaping off) to the sink, whatever the child links of
  the node are.
\<close>

theorem DumpNode_text:
  assumes "deref h a = Some n" and "Type n = TextNode"
  shows "DumpNode (Suc k) h out a =
     (if Content n = ''textnoenc'' then Panic ''unimplemented''
      else Done (None, snd (escapeText out (Content n) False)))"
  using assms by (simp add: XMLTextNoEnc_def)

lemma escapeText_a_lt_b:
  "escapeText Buffer ''a<b'' False = (None, \<lparr>written = ''a&lt;b'', room = None\<rparr>)"
  by (simp add: escape_simps)

theorem DumpNode_text_witness:
  "DumpNode 1 comment_and_text Buffer 1 = Done (None, \<lparr>written = ''a&lt;b'', room = None\<rparr>)
   \<and> DumpNode 1 comment_and_text Buffer 2 = Panic ''unimplemented''"
proof -
  have d1: "deref comment_and_text 1 =
      Some (OText ((new_node [] TextNode None ''a<b'')\<lparr>firstChild := Some 0\<rparr>))"
    and d2: "deref comment_and_text 2 = Some (OText (new_node [] TextNode None ''textnoenc''))"
    by (simp_all add: comment_and_text_def deref_def)
  have t1: "Type (OText ((new_node [] TextNode None ''a<b'')\<lparr>firstChild := Some 0\<rparr>)) = TextNode"
    and t2: "Type (OText (new_node [] TextNode None ''textnoenc'')) = TextNode"
    by (simp_all add: node_simps heap_simps)
  from DumpNode_text [OF d1 t1, of 0 Buffer] DumpNode_text [OF d2 t2, of 0 Buffer]
  show ?thesis
    by (simp add: node_simps heap_simps escapeText_a_lt_b)
qed

lemma escapeText_hi: "escapeText w ''hi'' False = Write w ''hi''"
  by (simp add: escapeText_def escape_loop.simps DecodeRune_def escapeText_switch_def
      isInCharacterRange_def)

text \<open>
  C1. On a fresh builder, whose context declares version 1.0, no encoding and no
  standalone value (neither an explicit yes nor an explicit no), the events
  document-start, element-start \<open>root\<close>, characters \<open>hi\<close>, element-end \<open>root\<close> and
  document-end are all accepted, and \<open>DumpDoc\<close> on the document handed to the context
  returns success within any count of at least four steps, having written exactly the
  XML declaration, a newline, \<open><root>hi</root>\<close> and a newline.
\<close>

theorem root_hi_serialized:
  assumes "parserCtx.version c = ''1.0''" and "parserCtx.encoding c = []"
    and "parserCtx.standalone c \<noteq> StandaloneExplicitYes"
    and "parserCtx.standalone c \<noteq> StandaloneExplicitNo"
    and "4 \<le> k"
  shows \<open>\<exists>s. deliver (initial c) root_hi = Done (None, s)
     \<and> DumpDoc k (mem s) Buffer (parserCtx.doc (ctx s)) =
         Done (None, \<lparr>written = ''<?xml version="1.0"?>\<newline><root>hi</root>\<newline>'',
                      room = None\<rparr>)\<close>
proof -
  from assms(5) obtain j where k: "k = Suc (Suc (Suc (Suc j)))"
    by (metis add_Suc_right add_Suc_shift le_Suc_ex numeral_Bit0 numeral_One one_add_one
        numeral_2_eq_2 numeral_eq_Suc eval_nat_numeral(2) eval_nat_numeral(3))
  show ?thesis
    unfolding root_hi_built k
    using assms(1-4)
    by (simp add: DumpDoc_def dumpDocContent_def heap_simps node_simps escapeText_hi
        Write_def io_WriteString_def Buffer_def XMLTextNoEnc_def Prefix_def)
qed

theorem root_hi_serialized_witness:
  \<open>\<exists>s. deliver (initial ctx_1_0) root_hi = Done (None, s)
     \<and> DumpDoc 4 (mem s) Buffer (parserCtx.doc (ctx s)) =
         Done (None, \<lparr>written = ''<?xml version="1.0"?>\<newline><root>hi</root>\<newline>'',
                      room = None\<rparr>)\<close>
  using root_hi_serialized [of ctx_1_0 4]
  by (simp add: ctx_1_0_def StandaloneNoXMLDecl_def StandaloneExplicitYes_def
      StandaloneExplicitNo_def)

end
